theory Spec2Isabelle
  imports Complex_Main "HOL-Library.Multiset"
begin

section \<open>Proposer block rewards (beacon-node/src/chain/rewards/blockRewards.ts)\<close>

text \<open>
  The module computes, for one block and the state of the same slot before the block is
  applied, the rewards of the block's proposer. Its functions are embedded below in the
  order of the source. What the module imports from other packages (the fork schedule of
  the state's config, the attestation-processing engine, the slashable-index utility, the
  protocol constant and the SSZ containers) is not part of the file: the containers are
  records with the fields the file reads (the state and its reward cache with a few more,
  which stand for the rest of the state where a property says what a call leaves alone),
  and the three imported values are the fields of one record of collaborators that every
  function takes as its first argument.
\<close>

subsection \<open>Numbers and errors\<close>

text \<open>
  The source computes with JavaScript numbers. They are modelled exactly: an unsigned SSZ
  integer (a validator index, a slot, an effective balance) is a \<^typ>\<open>nat\<close>, a reward
  value (\<^verbatim>\<open>type SubRewardValue = number; // All reward values should be integer\<close>) is an
  \<^typ>\<open>int\<close>, and the one number the source floors itself before use (the sync proposer
  reward) is a \<^typ>\<open>rat\<close>. Division is the exact quotient and \<^verbatim>\<open>Math.floor\<close> the floor of
  it, which is what the double-precision operations give as long as every value stays
  below \<open>2^53\<close> and the divisor is positive.
\<close>

type_synonym ValidatorIndex = nat
type_synonym Slot = nat
type_synonym ForkSeq = nat
type_synonym SubRewardValue = int

definition mathFloor :: "rat \<Rightarrow> int" where
  "mathFloor x = \<lfloor>x\<rfloor>"

datatype ForkName = phase0 | altair | bellatrix | capella | deneb

text \<open>
  The exceptions that can leave the module: the \<^verbatim>\<open>Error\<close> thrown by
  \<^verbatim>\<open>computeBlockAttestationRewardPhase0\<close>, one that \<^verbatim>\<open>state.validators.get\<close> may throw
  for an index that is not in the list, and one of the attestation-processing engine.
\<close>

datatype error =
    UnsupportedForkOperation
  | ValidatorIndexOutOfRange ValidatorIndex
  | AttestationProcessingError

subsection \<open>The block\<close>

record BeaconBlockHeader =
  slot :: Slot
  proposerIndex :: ValidatorIndex

record SignedBeaconBlockHeader =
  message :: BeaconBlockHeader

record ProposerSlashing =
  signedHeader1 :: SignedBeaconBlockHeader
  signedHeader2 :: SignedBeaconBlockHeader

record IndexedAttestation =
  attestingIndices :: "ValidatorIndex list"

record AttesterSlashing =
  attestation1 :: IndexedAttestation
  attestation2 :: IndexedAttestation

record SyncAggregate =
  syncCommitteeBits :: "bool list"

text \<open>
  An attestation is read by the attestation-processing engine only, so its type is a
  parameter. A block before Altair has no sync aggregate (\<^verbatim>\<open>undefined\<close> in the source).
\<close>

record 'att BeaconBlockBody =
  attestations :: "'att list"
  syncAggregate :: "SyncAggregate option"
  proposerSlashings :: "ProposerSlashing list"
  attesterSlashings :: "AttesterSlashing list"

record 'att BeaconBlock =
  slot :: Slot
  proposerIndex :: ValidatorIndex
  body :: "'att BeaconBlockBody"

text \<open>\<^verbatim>\<open>BitArray.getTrueBitIndexes()\<close>: the positions of the set bits, in increasing order.\<close>

definition getTrueBitIndexes :: "bool list \<Rightarrow> nat list" where
  "getTrueBitIndexes bits = filter (\<lambda>i. bits ! i) [0..<length bits]"

subsection \<open>The state\<close>

record Validator =
  effectiveBalance :: nat
  slashed :: bool

record BeaconConfig =
  getForkName :: "Slot \<Rightarrow> ForkName"
  getForkSeq :: "Slot \<Rightarrow> ForkSeq"

record EpochCtx =
  syncProposerReward :: rat

record RewardCache =
  attestations :: SubRewardValue
  syncAggregate :: SubRewardValue
  slashing :: SubRewardValue

record CachedBeaconState =
  config :: BeaconConfig
  epochCtx :: EpochCtx
  slot :: Slot
  validators :: "Validator list"
  balances :: "nat list"
  proposerRewards :: RewardCache

subsection \<open>The imported collaborators\<close>

text \<open>
  \<^verbatim>\<open>WHISTLEBLOWER_REWARD_QUOTIENT\<close> (package params), \<^verbatim>\<open>getAttesterSlashableIndices\<close> and
  \<^verbatim>\<open>processAttestationsAltair\<close> (package state-transition). The engine mutates the state
  it is given and may throw, so it returns the state as it leaves it together with its
  outcome. The utility returns what the source's \<^verbatim>\<open>for ... of\<close> iterates: a sequence of
  validator indices. The fourth field is what the \<^verbatim>\<open>get\<close> of the SSZ list of validators
  does with an index that is not below the length of the list, which the SSZ library
  decides: it throws or it returns some validator record.
\<close>

record 'att Collaborators =
  WHISTLEBLOWER_REWARD_QUOTIENT :: nat
  getAttesterSlashableIndices :: "AttesterSlashing \<Rightarrow> ValidatorIndex list"
  processAttestationsAltair ::
    "ForkSeq \<Rightarrow> CachedBeaconState \<Rightarrow> 'att list \<Rightarrow> bool \<Rightarrow> (error + unit) \<times> CachedBeaconState"
  getBeyondLength :: "ValidatorIndex \<Rightarrow> error + Validator"

text \<open>\<^verbatim>\<open>state.validators.get(index)\<close>: the validator at the index, when the list has one.\<close>

definition validators_get ::
  "'att Collaborators \<Rightarrow> Validator list \<Rightarrow> ValidatorIndex \<Rightarrow> error + Validator" where
  "validators_get deps vs index =
     (if index < length vs then Inr (vs ! index) else getBeyondLength deps index)"

subsection \<open>The result\<close>

record BlockRewards =
  proposerIndex :: ValidatorIndex
  total :: SubRewardValue
  attestations :: SubRewardValue
  syncAggregate :: SubRewardValue
  proposerSlashings :: SubRewardValue
  attesterSlashings :: SubRewardValue

subsection \<open>The sub-calculators\<close>

text \<open>
  A function that mutates the state or throws after a mutation returns a pair: its
  outcome and the state object as it leaves it. The slashing calculators only read.
\<close>

definition computeBlockAttestationRewardPhase0 ::
  "'att BeaconBlock \<Rightarrow> CachedBeaconState \<Rightarrow> (error + SubRewardValue) \<times> CachedBeaconState" where
  "computeBlockAttestationRewardPhase0 block state = (Inl UnsupportedForkOperation, state)"

definition computeBlockAttestationRewardAltair ::
  "'att Collaborators \<Rightarrow> 'att BeaconBlock \<Rightarrow> CachedBeaconState
     \<Rightarrow> (error + SubRewardValue) \<times> CachedBeaconState" where
  "computeBlockAttestationRewardAltair deps block state =
     (let fork = getForkSeq (config state) (BeaconBlock.slot block);
          atts = BeaconBlockBody.attestations (body block)
      in case processAttestationsAltair deps fork state atts False of
           (Inl e, state') \<Rightarrow> (Inl e, state')
         | (Inr u, state') \<Rightarrow> (Inr (RewardCache.attestations (proposerRewards state')), state'))"

definition computeSyncAggregateReward :: "'att BeaconBlock \<Rightarrow> CachedBeaconState \<Rightarrow> SubRewardValue" where
  "computeSyncAggregateReward block state =
     (case BeaconBlockBody.syncAggregate (body block) of
        Some aggregate \<Rightarrow>
          int (length (getTrueBitIndexes (syncCommitteeBits aggregate)))
            * mathFloor (syncProposerReward (epochCtx state))
      | None \<Rightarrow> 0)"

text \<open>The body of the loop over \<^verbatim>\<open>block.body.proposerSlashings\<close>; \<open>acc\<close> is \<^verbatim>\<open>proposerSlashingReward\<close>.\<close>

fun proposerSlashingLoop ::
  "'att Collaborators \<Rightarrow> CachedBeaconState \<Rightarrow> ProposerSlashing list \<Rightarrow> SubRewardValue
     \<Rightarrow> error + SubRewardValue" where
  "proposerSlashingLoop deps state [] acc = Inr acc"
| "proposerSlashingLoop deps state (proposerSlashing # rest) acc =
     (let offendingProposerIndex =
            BeaconBlockHeader.proposerIndex (message (signedHeader1 proposerSlashing))
      in case validators_get deps (validators state) offendingProposerIndex of
           Inl e \<Rightarrow> Inl e
         | Inr v \<Rightarrow>
             (let offendingProposerBalance = effectiveBalance v
              in proposerSlashingLoop deps state rest
                   (acc + mathFloor (of_nat offendingProposerBalance
                                       / of_nat (WHISTLEBLOWER_REWARD_QUOTIENT deps)))))"

definition computeBlockProposerSlashingReward ::
  "'att Collaborators \<Rightarrow> 'att BeaconBlock \<Rightarrow> CachedBeaconState \<Rightarrow> error + SubRewardValue" where
  "computeBlockProposerSlashingReward deps block state =
     proposerSlashingLoop deps state (BeaconBlockBody.proposerSlashings (body block)) 0"

text \<open>The inner loop, over the slashable indices of one attester slashing.\<close>

fun attesterIndexLoop ::
  "'att Collaborators \<Rightarrow> CachedBeaconState \<Rightarrow> ValidatorIndex list \<Rightarrow> SubRewardValue
     \<Rightarrow> error + SubRewardValue" where
  "attesterIndexLoop deps state [] acc = Inr acc"
| "attesterIndexLoop deps state (offendingAttesterIndex # rest) acc =
     (case validators_get deps (validators state) offendingAttesterIndex of
        Inl e \<Rightarrow> Inl e
      | Inr v \<Rightarrow>
          (let offendingAttesterBalance = effectiveBalance v
           in attesterIndexLoop deps state rest
                (acc + mathFloor (of_nat offendingAttesterBalance
                                    / of_nat (WHISTLEBLOWER_REWARD_QUOTIENT deps)))))"

text \<open>The outer loop, over \<^verbatim>\<open>block.body.attesterSlashings\<close>; \<open>acc\<close> is \<^verbatim>\<open>attesterSlashingReward\<close>.\<close>

fun attesterSlashingLoop ::
  "'att Collaborators \<Rightarrow> CachedBeaconState \<Rightarrow> AttesterSlashing list \<Rightarrow> SubRewardValue
     \<Rightarrow> error + SubRewardValue" where
  "attesterSlashingLoop deps state [] acc = Inr acc"
| "attesterSlashingLoop deps state (attesterSlashing # rest) acc =
     (case attesterIndexLoop deps state (getAttesterSlashableIndices deps attesterSlashing) acc of
        Inl e \<Rightarrow> Inl e
      | Inr acc' \<Rightarrow> attesterSlashingLoop deps state rest acc')"

definition computeBlockAttesterSlashingReward ::
  "'att Collaborators \<Rightarrow> 'att BeaconBlock \<Rightarrow> CachedBeaconState \<Rightarrow> error + SubRewardValue" where
  "computeBlockAttesterSlashingReward deps block state =
     attesterSlashingLoop deps state (BeaconBlockBody.attesterSlashings (body block)) 0"

subsection \<open>The entry point\<close>

text \<open>
  The four calls in the order of the source. An exception of one call leaves the function
  at once (the promise is rejected), with the state as that call left it. The state that
  the later calls read is the object the attestation calculator has worked on.
\<close>

definition computeBlockRewards ::
  "'att Collaborators \<Rightarrow> 'att BeaconBlock \<Rightarrow> CachedBeaconState
     \<Rightarrow> (error + BlockRewards) \<times> CachedBeaconState" where
  "computeBlockRewards deps block state =
     (let fork = getForkName (config state) (BeaconBlock.slot block)
      in case (if fork = phase0
               then computeBlockAttestationRewardPhase0 block state
               else computeBlockAttestationRewardAltair deps block state) of
           (Inl e, state') \<Rightarrow> (Inl e, state')
         | (Inr blockAttestationReward, state') \<Rightarrow>
             (let syncAggregateReward = computeSyncAggregateReward block state'
              in case computeBlockProposerSlashingReward deps block state' of
                   Inl e \<Rightarrow> (Inl e, state')
                 | Inr blockProposerSlashingReward \<Rightarrow>
                     (case computeBlockAttesterSlashingReward deps block state' of
                        Inl e \<Rightarrow> (Inl e, state')
                      | Inr blockAttesterSlashingReward \<Rightarrow>
                          (let total = blockAttestationReward + syncAggregateReward
                                 + blockProposerSlashingReward + blockAttesterSlashingReward
                           in (Inr \<lparr>BlockRewards.proposerIndex = BeaconBlock.proposerIndex block,
                                    total = total,
                                    BlockRewards.attestations = blockAttestationReward,
                                    BlockRewards.syncAggregate = syncAggregateReward,
                                    BlockRewards.proposerSlashings = blockProposerSlashingReward,
                                    BlockRewards.attesterSlashings = blockAttesterSlashingReward\<rparr>,
                               state')))))"

subsection \<open>The attestation-processing engine, from the specification\<close>

text \<open>
  Modelled from the spec: \<^verbatim>\<open>processAttestationsAltair\<close> is a function of the package
  state-transition, which is not among the sources. The specification gives its interface,
  "(forkSeq, state, attestations, applySlashingChecks:boolean) -> mutates state's reward
  accumulator", says that the routine "accumulates rewards as a side effect rather than
  returning them directly", that it "mutates the pre-state's accumulator field in place"
  and that the reward-only mode applies no slashing side effects. The reward one
  attestation earns the proposer and the effect of the slashing checks are not specified:
  they are the parameters \<open>attestationReward\<close> and \<open>slashingEffects\<close>.
\<close>

definition processAttestationsAltairSpec ::
  "(ForkSeq \<Rightarrow> CachedBeaconState \<Rightarrow> 'att \<Rightarrow> nat) \<Rightarrow> (CachedBeaconState \<Rightarrow> CachedBeaconState)
     \<Rightarrow> ForkSeq \<Rightarrow> CachedBeaconState \<Rightarrow> 'att list \<Rightarrow> bool
     \<Rightarrow> (error + unit) \<times> CachedBeaconState" where
  "processAttestationsAltairSpec attestationReward slashingEffects fork state atts applySlashingChecks =
     (let accumulated =
            state\<lparr>proposerRewards := (proposerRewards state)
              \<lparr>RewardCache.attestations :=
                 RewardCache.attestations (proposerRewards state)
                   + (\<Sum>a\<leftarrow>atts. int (attestationReward fork state a))\<rparr>\<rparr>
      in (Inr (), if applySlashingChecks then slashingEffects accumulated else accumulated))"

text \<open>The collaborators with the engine of the specification.\<close>

definition specCollaborators ::
  "nat \<Rightarrow> (AttesterSlashing \<Rightarrow> ValidatorIndex list) \<Rightarrow> (ValidatorIndex \<Rightarrow> error + Validator)
     \<Rightarrow> (ForkSeq \<Rightarrow> CachedBeaconState \<Rightarrow> 'att \<Rightarrow> nat) \<Rightarrow> (CachedBeaconState \<Rightarrow> CachedBeaconState)
     \<Rightarrow> 'att Collaborators" where
  "specCollaborators q slashableIndices beyondLength attestationReward slashingEffects =
     \<lparr>WHISTLEBLOWER_REWARD_QUOTIENT = q,
      getAttesterSlashableIndices = slashableIndices,
      processAttestationsAltair = processAttestationsAltairSpec attestationReward slashingEffects,
      getBeyondLength = beyondLength\<rparr>"

subsection \<open>The terms of the reward formulas\<close>

text \<open>
  The share of the proposer in one slashed validator: the floor of the validator's
  effective balance in the given state over the quotient.
\<close>

definition slashingShare :: "nat \<Rightarrow> CachedBeaconState \<Rightarrow> ValidatorIndex \<Rightarrow> int" where
  "slashingShare q state index =
     \<lfloor>(of_nat (effectiveBalance (validators state ! index)) :: rat) / of_nat q\<rfloor>"

text \<open>The validator a proposer slashing names: the proposer of its first signed header.\<close>

definition offender :: "ProposerSlashing \<Rightarrow> ValidatorIndex" where
  "offender proposerSlashing =
     BeaconBlockHeader.proposerIndex (message (signedHeader1 proposerSlashing))"

text \<open>The number of set bits of a participation bitfield.\<close>

definition setBits :: "bool list \<Rightarrow> nat" where
  "setBits bits = length (filter (\<lambda>b. b) bits)"

subsection \<open>A small chain for concrete runs\<close>

text \<open>
  Slots below 10 are phase0, the others altair. Three validators; the utility returns the
  indices of the second attestation that the first one has too; a lookup beyond the list
  of validators throws; an attestation is the number it earns the proposer.
\<close>

definition exampleConfig :: BeaconConfig where
  "exampleConfig =
     \<lparr>getForkName = (\<lambda>s. if s < 10 then phase0 else altair),
      getForkSeq = (\<lambda>s. if s < 10 then 0 else 1)\<rparr>"

definition exampleState :: CachedBeaconState where
  "exampleState =
     \<lparr>config = exampleConfig,
      epochCtx = \<lparr>syncProposerReward = 7 / 2\<rparr>,
      CachedBeaconState.slot = 12,
      validators =
        [\<lparr>effectiveBalance = 32000000000, slashed = False\<rparr>,
         \<lparr>effectiveBalance = 31000000000, slashed = False\<rparr>,
         \<lparr>effectiveBalance = 1000, slashed = False\<rparr>],
      balances = [32000000000, 31000000000, 1000],
      proposerRewards =
        \<lparr>RewardCache.attestations = 0, RewardCache.syncAggregate = 0, slashing = 0\<rparr>\<rparr>"

definition exampleSlashableIndices :: "AttesterSlashing \<Rightarrow> ValidatorIndex list" where
  "exampleSlashableIndices attesterSlashing =
     filter (\<lambda>i. i \<in> set (attestingIndices (attestation1 attesterSlashing)))
       (attestingIndices (attestation2 attesterSlashing))"

definition exampleCollaborators :: "nat Collaborators" where
  "exampleCollaborators =
     specCollaborators 512 exampleSlashableIndices (\<lambda>i. Inl (ValidatorIndexOutOfRange i))
       (\<lambda>fork state a. a) (\<lambda>s. s)"

text \<open>The same collaborators with an engine that throws and leaves the state as it is.\<close>

definition exampleFailingCollaborators :: "nat Collaborators" where
  "exampleFailingCollaborators =
     exampleCollaborators
       \<lparr>processAttestationsAltair := (\<lambda>fork state atts flag. (Inl AttestationProcessingError, state))\<rparr>"

definition exampleProposerSlashing :: "ValidatorIndex \<Rightarrow> ProposerSlashing" where
  "exampleProposerSlashing i =
     \<lparr>signedHeader1 = \<lparr>message = \<lparr>BeaconBlockHeader.slot = 11, BeaconBlockHeader.proposerIndex = i\<rparr>\<rparr>,
      signedHeader2 = \<lparr>message = \<lparr>BeaconBlockHeader.slot = 11, BeaconBlockHeader.proposerIndex = i\<rparr>\<rparr>\<rparr>"

definition exampleBlock :: "nat BeaconBlock" where
  "exampleBlock =
     \<lparr>BeaconBlock.slot = 12, BeaconBlock.proposerIndex = 1,
      body =
        \<lparr>BeaconBlockBody.attestations = [5, 7],
         BeaconBlockBody.syncAggregate = Some \<lparr>syncCommitteeBits = [True, False, True]\<rparr>,
         BeaconBlockBody.proposerSlashings =
           [exampleProposerSlashing 0, exampleProposerSlashing 2, exampleProposerSlashing 0],
         BeaconBlockBody.attesterSlashings =
           [\<lparr>attestation1 = \<lparr>attestingIndices = [0, 1, 2]\<rparr>,
             attestation2 = \<lparr>attestingIndices = [1, 2]\<rparr>\<rparr>]\<rparr>\<rparr>"

text \<open>A phase0 block whose proposer slashing names a validator the state does not have.\<close>

definition examplePhase0Block :: "nat BeaconBlock" where
  "examplePhase0Block =
     \<lparr>BeaconBlock.slot = 3, BeaconBlock.proposerIndex = 1,
      body =
        \<lparr>BeaconBlockBody.attestations = [5],
         BeaconBlockBody.syncAggregate = None,
         BeaconBlockBody.proposerSlashings = [exampleProposerSlashing 9],
         BeaconBlockBody.attesterSlashings = []\<rparr>\<rparr>"

definition exampleEmptyBlock :: "nat BeaconBlock" where
  "exampleEmptyBlock =
     \<lparr>BeaconBlock.slot = 12, BeaconBlock.proposerIndex = 1,
      body =
        \<lparr>BeaconBlockBody.attestations = [],
         BeaconBlockBody.syncAggregate = Some \<lparr>syncCommitteeBits = [False, False, False]\<rparr>,
         BeaconBlockBody.proposerSlashings = [],
         BeaconBlockBody.attesterSlashings = []\<rparr>\<rparr>"



subsection \<open>The functions on objects in a store\<close>

text \<open>
  In the source the block and the state are objects that the functions receive by
  reference, and the engine receives the state object and the array of attestations of the
  block. To say what a call leaves alone, the functions that mutate are embedded once more
  over a store, which maps each reference to the object it designates. The objects at the
  other references stand for everything else the process holds, the canonical chain state
  and the other blocks among them. The engine on a store takes the reference of the state
  and the reference of the block whose array of attestations it is given, and it may write
  to any object. A function that only reads (the sync-aggregate and the two slashing
  calculators) is its embedding above on the objects the store holds when it is called.
\<close>

type_synonym Ref = nat

record 'att Store =
  blockObjects :: "Ref \<Rightarrow> 'att BeaconBlock"
  stateObjects :: "Ref \<Rightarrow> CachedBeaconState"

type_synonym 'att StoreEngine =
  "ForkSeq \<Rightarrow> Ref \<Rightarrow> Ref \<Rightarrow> bool \<Rightarrow> 'att Store \<Rightarrow> (error + unit) \<times> 'att Store"

definition computeBlockAttestationRewardPhase0InStore ::
  "Ref \<Rightarrow> Ref \<Rightarrow> 'att Store \<Rightarrow> (error + SubRewardValue) \<times> 'att Store" where
  "computeBlockAttestationRewardPhase0InStore blockRef stateRef store =
     (Inl UnsupportedForkOperation, store)"

definition computeBlockAttestationRewardAltairInStore ::
  "'att StoreEngine \<Rightarrow> Ref \<Rightarrow> Ref \<Rightarrow> 'att Store \<Rightarrow> (error + SubRewardValue) \<times> 'att Store" where
  "computeBlockAttestationRewardAltairInStore engine blockRef stateRef store =
     (let fork = getForkSeq (config (stateObjects store stateRef))
                   (BeaconBlock.slot (blockObjects store blockRef))
      in case engine fork stateRef blockRef False store of
           (Inl e, store') \<Rightarrow> (Inl e, store')
         | (Inr u, store') \<Rightarrow>
             (Inr (RewardCache.attestations (proposerRewards (stateObjects store' stateRef))),
              store'))"

definition computeBlockRewardsInStore ::
  "'att Collaborators \<Rightarrow> 'att StoreEngine \<Rightarrow> Ref \<Rightarrow> Ref \<Rightarrow> 'att Store
     \<Rightarrow> (error + BlockRewards) \<times> 'att Store" where
  "computeBlockRewardsInStore deps engine blockRef stateRef store =
     (let fork = getForkName (config (stateObjects store stateRef))
                   (BeaconBlock.slot (blockObjects store blockRef))
      in case (if fork = phase0
               then computeBlockAttestationRewardPhase0InStore blockRef stateRef store
               else computeBlockAttestationRewardAltairInStore engine blockRef stateRef store) of
           (Inl e, store') \<Rightarrow> (Inl e, store')
         | (Inr blockAttestationReward, store') \<Rightarrow>
             (let block = blockObjects store' blockRef;
                  state = stateObjects store' stateRef;
                  syncAggregateReward = computeSyncAggregateReward block state
              in case computeBlockProposerSlashingReward deps block state of
                   Inl e \<Rightarrow> (Inl e, store')
                 | Inr blockProposerSlashingReward \<Rightarrow>
                     (case computeBlockAttesterSlashingReward deps block state of
                        Inl e \<Rightarrow> (Inl e, store')
                      | Inr blockAttesterSlashingReward \<Rightarrow>
                          (let total = blockAttestationReward + syncAggregateReward
                                 + blockProposerSlashingReward + blockAttesterSlashingReward
                           in (Inr \<lparr>BlockRewards.proposerIndex = BeaconBlock.proposerIndex block,
                                    total = total,
                                    BlockRewards.attestations = blockAttestationReward,
                                    BlockRewards.syncAggregate = syncAggregateReward,
                                    BlockRewards.proposerSlashings = blockProposerSlashingReward,
                                    BlockRewards.attesterSlashings = blockAttesterSlashingReward\<rparr>,
                               store')))))"

text \<open>
  An engine given as a function of the state object and the list of attestations, run on
  the store: it reads the two objects and writes the state object back.
\<close>

definition inStore ::
  "(ForkSeq \<Rightarrow> CachedBeaconState \<Rightarrow> 'att list \<Rightarrow> bool \<Rightarrow> (error + unit) \<times> CachedBeaconState)
     \<Rightarrow> 'att StoreEngine" where
  "inStore engine fork stateRef blockRef flag store =
     (case engine fork (stateObjects store stateRef)
             (BeaconBlockBody.attestations (body (blockObjects store blockRef))) flag of
        (outcome, state') \<Rightarrow>
          (outcome, store\<lparr>stateObjects := (stateObjects store)(stateRef := state')\<rparr>))"

text \<open>
  Modelled from the spec: the engine of the specification on a store. The specification
  names one object the engine writes, the state it is given ("mutates state's reward
  accumulator", "the one shared mutable resource is the pre-state's proposer-reward
  accumulator"), so on a store the engine is \<open>processAttestationsAltairSpec\<close> at the
  state's reference.
\<close>

definition processAttestationsAltairSpecInStore ::
  "(ForkSeq \<Rightarrow> CachedBeaconState \<Rightarrow> 'att \<Rightarrow> nat) \<Rightarrow> (CachedBeaconState \<Rightarrow> CachedBeaconState)
     \<Rightarrow> 'att StoreEngine" where
  "processAttestationsAltairSpecInStore attestationReward slashingEffects =
     inStore (processAttestationsAltairSpec attestationReward slashingEffects)"

text \<open>
  A store for concrete runs: the block and the state of the example at reference 0, the
  canonical chain state at reference 1, another block at reference 1.
\<close>

definition exampleStore :: "nat Store" where
  "exampleStore =
     \<lparr>blockObjects = (\<lambda>ref. if ref = 0 then exampleBlock else examplePhase0Block),
      stateObjects = (\<lambda>ref. if ref = 0 then exampleState
                             else exampleState\<lparr>balances := [32000000001, 31000000000, 1000]\<rparr>)\<rparr>"

section \<open>Properties\<close>

subsection \<open>Auxiliary facts\<close>

lemma floor_rat_numeral: "\<lfloor>(numeral a :: rat) / numeral b\<rfloor> = numeral a div numeral b"
  by (metis floor_divide_of_int_eq of_int_numeral)


lemma length_getTrueBitIndexes: "length (getTrueBitIndexes bits) = setBits bits"
proof -
  have "map ((!) bits) (filter (\<lambda>i. bits ! i) [0..<length bits])
          = filter (\<lambda>b. b) (map ((!) bits) [0..<length bits])"
    by (simp add: filter_map comp_def)
  then have "length (filter (\<lambda>i. bits ! i) [0..<length bits]) = length (filter (\<lambda>b. b) bits)"
    by (metis length_map map_nth)
  then show ?thesis by (simp add: getTrueBitIndexes_def setBits_def)
qed


text \<open>The loops: what they return when the state has the validators, and that they only add.\<close>

lemma proposerSlashingLoop_Inr:
  "\<forall>p \<in> set ps. offender p < length (validators state) \<Longrightarrow>
   proposerSlashingLoop deps state ps acc
     = Inr (acc + (\<Sum>p\<leftarrow>ps. slashingShare (WHISTLEBLOWER_REWARD_QUOTIENT deps) state (offender p)))"
  by (induction ps arbitrary: acc)
     (simp_all add: validators_get_def offender_def slashingShare_def mathFloor_def Let_def)


lemma attesterIndexLoop_Inr:
  "\<forall>i \<in> set ixs. i < length (validators state) \<Longrightarrow>
   attesterIndexLoop deps state ixs acc
     = Inr (acc + (\<Sum>i\<leftarrow>ixs. slashingShare (WHISTLEBLOWER_REWARD_QUOTIENT deps) state i))"
  by (induction ixs arbitrary: acc)
     (simp_all add: validators_get_def slashingShare_def mathFloor_def Let_def)


lemma attesterSlashingLoop_Inr:
  "\<forall>s \<in> set ss. \<forall>i \<in> set (getAttesterSlashableIndices deps s). i < length (validators state) \<Longrightarrow>
   attesterSlashingLoop deps state ss acc =
     Inr (acc + (\<Sum>s\<leftarrow>ss. \<Sum>i\<leftarrow>getAttesterSlashableIndices deps s.
                   slashingShare (WHISTLEBLOWER_REWARD_QUOTIENT deps) state i))"
  by (induction ss arbitrary: acc) (simp_all add: attesterIndexLoop_Inr)


lemma sum_list_nonneg_int: "(\<And>x. x \<in> set xs \<Longrightarrow> (0::int) \<le> f x) \<Longrightarrow> 0 \<le> (\<Sum>x\<leftarrow>xs. f x)"
  by (induction xs) auto

text \<open>The entry point on a phase0 slot, and what a returned breakdown says of the run.\<close>

lemma computeBlockRewards_phase0:
  "getForkName (config state) (BeaconBlock.slot block) = phase0 \<Longrightarrow>
   computeBlockRewards deps block state = (Inl UnsupportedForkOperation, state)"
  by (simp add: computeBlockRewards_def computeBlockAttestationRewardPhase0_def)

lemma computeBlockRewards_InrD:
  assumes "computeBlockRewards deps block state = (Inr r, state')"
  shows "getForkName (config state) (BeaconBlock.slot block) \<noteq> phase0"
    and "processAttestationsAltair deps (getForkSeq (config state) (BeaconBlock.slot block)) state
           (BeaconBlockBody.attestations (body block)) False = (Inr (), state')"
    and "BlockRewards.attestations r = RewardCache.attestations (proposerRewards state')"
    and "BlockRewards.syncAggregate r = computeSyncAggregateReward block state'"
    and "computeBlockProposerSlashingReward deps block state' = Inr (BlockRewards.proposerSlashings r)"
    and "computeBlockAttesterSlashingReward deps block state' = Inr (BlockRewards.attesterSlashings r)"
    and "total r = BlockRewards.attestations r + BlockRewards.syncAggregate r
           + BlockRewards.proposerSlashings r + BlockRewards.attesterSlashings r"
    and "BlockRewards.proposerIndex r = BeaconBlock.proposerIndex block"
  using assms
  by (auto simp: computeBlockRewards_def computeBlockAttestationRewardPhase0_def
        computeBlockAttestationRewardAltair_def Let_def
      split: if_splits sum.splits prod.splits)

lemmas example_defs = exampleCollaborators_def specCollaborators_def exampleBlock_def
  exampleState_def exampleConfig_def exampleSlashableIndices_def exampleProposerSlashing_def
  examplePhase0Block_def exampleEmptyBlock_def

lemmas code_defs = computeBlockRewards_def computeBlockAttestationRewardPhase0_def
  computeBlockAttestationRewardAltair_def computeSyncAggregateReward_def
  computeBlockProposerSlashingReward_def computeBlockAttesterSlashingReward_def
  processAttestationsAltairSpec_def validators_get_def mathFloor_def getTrueBitIndexes_def

lemma example_run:
  "computeBlockRewards exampleCollaborators exampleBlock exampleState =
     (Inr \<lparr>BlockRewards.proposerIndex = 1, total = 185546895, BlockRewards.attestations = 12,
           BlockRewards.syncAggregate = 6, BlockRewards.proposerSlashings = 125000001,
           BlockRewards.attesterSlashings = 60546876\<rparr>,
      exampleState\<lparr>proposerRewards :=
        \<lparr>RewardCache.attestations = 12, RewardCache.syncAggregate = 0, slashing = 0\<rparr>\<rparr>)"
  by (simp add: example_defs code_defs Let_def upt_rec floor_rat_numeral)

subsection \<open>The unsupported fork\<close>

text \<open>
  Claim C1. For every block whose slot the state's fork schedule resolves to phase0,
  \<open>computeBlockRewards\<close> fails with the unsupported-fork error of the phase0 attestation
  calculator, whatever the collaborators, the block and the state are, and it returns no
  breakdown.
\<close>

theorem computeBlockRewards_phase0_unsupported:
  assumes "getForkName (config state) (BeaconBlock.slot block) = phase0"
  shows "fst (computeBlockRewards deps block state) = Inl UnsupportedForkOperation
         \<and> (\<forall>r. fst (computeBlockRewards deps block state) \<noteq> Inr r)"
  using assms by (simp add: computeBlockRewards_phase0)

theorem computeBlockRewards_phase0_unsupported_witness:
  "getForkName (config exampleState) (BeaconBlock.slot examplePhase0Block) = phase0
   \<and> fst (computeBlockRewards exampleCollaborators examplePhase0Block exampleState)
       = Inl UnsupportedForkOperation
   \<and> (\<forall>r. fst (computeBlockRewards exampleCollaborators examplePhase0Block exampleState) \<noteq> Inr r)"
proof -
  have phase0: "getForkName (config exampleState) (BeaconBlock.slot examplePhase0Block) = phase0"
    by (simp add: example_defs)
  from computeBlockRewards_phase0_unsupported [OF phase0, of exampleCollaborators] phase0
  show ?thesis by simp
qed

text \<open>
  Claim C10. On a phase0 slot the error is raised before anything else has run: the state
  object is returned exactly as it was given, accumulator included, and the outcome is the
  same for every engine, every slashing-index utility and every block body, so neither the
  engine nor the sync-aggregate and slashing calculators have had an effect (a slashing
  that names a missing validator, which makes the proposer-slashing calculator throw, does
  not change the error).
\<close>

theorem computeBlockRewards_phase0_atomic:
  assumes "getForkName (config state) (BeaconBlock.slot block) = phase0"
  shows "computeBlockRewards deps block state = (Inl UnsupportedForkOperation, state)
         \<and> (\<forall>deps' body'.
               computeBlockRewards deps' (block\<lparr>body := body'\<rparr>) state
                 = (Inl UnsupportedForkOperation, state))"
  using assms by (simp add: computeBlockRewards_phase0)

text \<open>
  On the example chain: the slashing calculator alone throws on the phase0 block and the
  engine alone changes the accumulator, and the entry point shows neither.
\<close>

theorem computeBlockRewards_phase0_atomic_witness:
  "getForkName (config exampleState) (BeaconBlock.slot examplePhase0Block) = phase0
   \<and> computeBlockRewards exampleCollaborators examplePhase0Block exampleState
       = (Inl UnsupportedForkOperation, exampleState)
   \<and> computeBlockProposerSlashingReward exampleCollaborators examplePhase0Block exampleState
       = Inl (ValidatorIndexOutOfRange 9)
   \<and> snd (processAttestationsAltair exampleCollaborators 0 exampleState
             (BeaconBlockBody.attestations (body examplePhase0Block)) False) \<noteq> exampleState"
proof -
  have phase0: "getForkName (config exampleState) (BeaconBlock.slot examplePhase0Block) = phase0"
    by (simp add: example_defs)
  have throws: "computeBlockProposerSlashingReward exampleCollaborators examplePhase0Block exampleState
      = Inl (ValidatorIndexOutOfRange 9)"
    by (simp add: example_defs code_defs Let_def)
  have "RewardCache.attestations (proposerRewards (snd (processAttestationsAltair
          exampleCollaborators 0 exampleState
          (BeaconBlockBody.attestations (body examplePhase0Block)) False))) = 5"
    by (simp add: example_defs code_defs Let_def)
  moreover have "RewardCache.attestations (proposerRewards exampleState) = 0"
    by (simp add: example_defs)
  ultimately have mutates: "snd (processAttestationsAltair exampleCollaborators 0 exampleState
      (BeaconBlockBody.attestations (body examplePhase0Block)) False) \<noteq> exampleState"
    by force
  from computeBlockRewards_phase0_atomic [OF phase0, of exampleCollaborators] phase0 throws mutates
  show ?thesis by simp
qed

subsection \<open>The breakdown\<close>




subsection \<open>The sub-rewards\<close>

text \<open>
  Claim C3. For a block of a fork after phase0, the attestations sub-reward of a returned
  breakdown is obtained by running the attestation-processing engine on the fork sequence
  number of the block's slot, the state, the block's attestation list and the flag
  \<open>False\<close>, and it is the value the accumulator \<^verbatim>\<open>proposerRewards.attestations\<close> of the
  state holds after that run; the state the call leaves is the one the engine leaves. An
  exception of the engine is the outcome of the call.
\<close>

theorem computeBlockRewards_attestations:
  assumes "getForkName (config state) (BeaconBlock.slot block) \<noteq> phase0"
  shows "(\<forall>r state'. computeBlockRewards deps block state = (Inr r, state') \<longrightarrow>
            processAttestationsAltair deps (getForkSeq (config state) (BeaconBlock.slot block))
              state (BeaconBlockBody.attestations (body block)) False = (Inr (), state')
            \<and> BlockRewards.attestations r = RewardCache.attestations (proposerRewards state'))
         \<and> (\<forall>e state'.
              processAttestationsAltair deps (getForkSeq (config state) (BeaconBlock.slot block))
                state (BeaconBlockBody.attestations (body block)) False = (Inl e, state') \<longrightarrow>
              computeBlockRewards deps block state = (Inl e, state'))
         \<and> (\<forall>state'.
              processAttestationsAltair deps (getForkSeq (config state) (BeaconBlock.slot block))
                state (BeaconBlockBody.attestations (body block)) False = (Inr (), state') \<longrightarrow>
              computeBlockAttestationRewardAltair deps block state
                = (Inr (RewardCache.attestations (proposerRewards state')), state'))"
proof (intro conjI allI impI)
  fix r state'
  assume run: "computeBlockRewards deps block state = (Inr r, state')"
  show "processAttestationsAltair deps (getForkSeq (config state) (BeaconBlock.slot block))
          state (BeaconBlockBody.attestations (body block)) False = (Inr (), state')"
    by (rule computeBlockRewards_InrD(2) [OF run])
  show "BlockRewards.attestations r = RewardCache.attestations (proposerRewards state')"
    by (rule computeBlockRewards_InrD(3) [OF run])
next
  fix e state'
  assume "processAttestationsAltair deps (getForkSeq (config state) (BeaconBlock.slot block))
            state (BeaconBlockBody.attestations (body block)) False = (Inl e, state')"
  with assms show "computeBlockRewards deps block state = (Inl e, state')"
    by (simp add: computeBlockRewards_def computeBlockAttestationRewardAltair_def Let_def)
next
  fix state'
  assume "processAttestationsAltair deps (getForkSeq (config state) (BeaconBlock.slot block))
            state (BeaconBlockBody.attestations (body block)) False = (Inr (), state')"
  then show "computeBlockAttestationRewardAltair deps block state
               = (Inr (RewardCache.attestations (proposerRewards state')), state')"
    by (simp add: computeBlockAttestationRewardAltair_def Let_def)
qed

text \<open>
  On the example chain: the engine of the example returns and leaves 12 in the
  accumulator; an engine that throws makes the call fail with the engine's error.
\<close>

theorem computeBlockRewards_attestations_witness:
  "getForkName (config exampleState) (BeaconBlock.slot exampleBlock) \<noteq> phase0
   \<and> computeBlockRewards exampleCollaborators exampleBlock exampleState =
       (Inr \<lparr>BlockRewards.proposerIndex = 1, total = 185546895, BlockRewards.attestations = 12,
             BlockRewards.syncAggregate = 6, BlockRewards.proposerSlashings = 125000001,
             BlockRewards.attesterSlashings = 60546876\<rparr>,
        exampleState\<lparr>proposerRewards :=
          \<lparr>RewardCache.attestations = 12, RewardCache.syncAggregate = 0, slashing = 0\<rparr>\<rparr>)
   \<and> processAttestationsAltair exampleCollaborators
         (getForkSeq (config exampleState) (BeaconBlock.slot exampleBlock)) exampleState
         (BeaconBlockBody.attestations (body exampleBlock)) False =
       (Inr (), exampleState\<lparr>proposerRewards :=
          \<lparr>RewardCache.attestations = 12, RewardCache.syncAggregate = 0, slashing = 0\<rparr>\<rparr>)
   \<and> processAttestationsAltair exampleFailingCollaborators
         (getForkSeq (config exampleState) (BeaconBlock.slot exampleBlock)) exampleState
         (BeaconBlockBody.attestations (body exampleBlock)) False =
       (Inl AttestationProcessingError, exampleState)
   \<and> computeBlockRewards exampleFailingCollaborators exampleBlock exampleState =
       (Inl AttestationProcessingError, exampleState)"
proof -
  have altair: "getForkName (config exampleState) (BeaconBlock.slot exampleBlock) \<noteq> phase0"
    by (simp add: example_defs)
  have throws: "processAttestationsAltair exampleFailingCollaborators
      (getForkSeq (config exampleState) (BeaconBlock.slot exampleBlock)) exampleState
      (BeaconBlockBody.attestations (body exampleBlock)) False =
    (Inl AttestationProcessingError, exampleState)"
    by (simp add: exampleFailingCollaborators_def)
  from computeBlockRewards_attestations [OF altair, of exampleCollaborators]
    computeBlockRewards_attestations [OF altair, of exampleFailingCollaborators]
    example_run altair throws
  show ?thesis by simp
qed

text \<open>
  Claim C4. When the block body carries a sync aggregate, the sync-aggregate reward is the
  number of set bits of its participation bitfield times the floor of the state's sync
  proposer reward; when it carries none, the reward is 0. The syncAggregate field of a
  returned breakdown is this value on the state object as the call leaves it.
\<close>

theorem computeSyncAggregateReward_value:
  "(\<forall>aggregate. BeaconBlockBody.syncAggregate (body block) = Some aggregate \<longrightarrow>
      computeSyncAggregateReward block state
        = int (length (filter (\<lambda>b. b) (syncCommitteeBits aggregate)))
            * \<lfloor>syncProposerReward (epochCtx state)\<rfloor>)
   \<and> (BeaconBlockBody.syncAggregate (body block) = None \<longrightarrow>
        computeSyncAggregateReward block state = 0)
   \<and> (\<forall>deps r state'. computeBlockRewards deps block state = (Inr r, state') \<longrightarrow>
        BlockRewards.syncAggregate r = computeSyncAggregateReward block state')"
  by (auto simp: computeSyncAggregateReward_def length_getTrueBitIndexes setBits_def mathFloor_def
      dest: computeBlockRewards_InrD(4))

theorem computeSyncAggregateReward_value_witness:
  "BeaconBlockBody.syncAggregate (body exampleBlock)
     = Some \<lparr>syncCommitteeBits = [True, False, True]\<rparr>
   \<and> syncProposerReward (epochCtx exampleState) = 7 / 2
   \<and> computeSyncAggregateReward exampleBlock exampleState = 2 * 3
   \<and> BeaconBlockBody.syncAggregate (body examplePhase0Block) = None
   \<and> computeSyncAggregateReward examplePhase0Block exampleState = 0
   \<and> computeBlockRewards exampleCollaborators exampleBlock exampleState =
       (Inr \<lparr>BlockRewards.proposerIndex = 1, total = 185546895, BlockRewards.attestations = 12,
             BlockRewards.syncAggregate = 6, BlockRewards.proposerSlashings = 125000001,
             BlockRewards.attesterSlashings = 60546876\<rparr>,
        exampleState\<lparr>proposerRewards :=
          \<lparr>RewardCache.attestations = 12, RewardCache.syncAggregate = 0, slashing = 0\<rparr>\<rparr>)
   \<and> computeSyncAggregateReward exampleBlock (exampleState\<lparr>proposerRewards :=
          \<lparr>RewardCache.attestations = 12, RewardCache.syncAggregate = 0, slashing = 0\<rparr>\<rparr>) = 6"
proof -
  have some: "BeaconBlockBody.syncAggregate (body exampleBlock)
      = Some \<lparr>syncCommitteeBits = [True, False, True]\<rparr>"
    by (simp add: example_defs)
  have none: "BeaconBlockBody.syncAggregate (body examplePhase0Block) = None"
    by (simp add: example_defs)
  have r: "syncProposerReward (epochCtx exampleState) = 7 / 2"
    by (simp add: example_defs)
  note inst = computeSyncAggregateReward_value [of exampleBlock exampleState]
  from inst have "\<forall>deps r state'.
      computeBlockRewards deps exampleBlock exampleState = (Inr r, state') \<longrightarrow>
      BlockRewards.syncAggregate r = computeSyncAggregateReward exampleBlock state'"
    by blast
  from this [rule_format, OF example_run]
  have field: "computeSyncAggregateReward exampleBlock (exampleState\<lparr>proposerRewards :=
      \<lparr>RewardCache.attestations = 12, RewardCache.syncAggregate = 0, slashing = 0\<rparr>\<rparr>) = 6"
    by simp
  from inst computeSyncAggregateReward_value [of examplePhase0Block exampleState] some none r
  have "computeSyncAggregateReward exampleBlock exampleState = 2 * 3"
    and "computeSyncAggregateReward examplePhase0Block exampleState = 0"
    by (simp_all add: floor_rat_numeral)
  with some none r example_run field show ?thesis by blast
qed

text \<open>
  Claim C5. The proposer-slashing reward is the sum, over the proposer slashings of the
  block body taken as a multiset (each occurrence counted, the order immaterial), of the
  floor of \<open>B / WHISTLEBLOWER_REWARD_QUOTIENT\<close>, where \<open>B\<close> is the effective balance the
  state holds for the validator whose index is the proposer index of the message of the
  slashing's first signed header. The calculator returns this sum whenever the state has
  all the validators named, and then the proposerSlashings field of a returned breakdown
  is this sum on the state object as the call leaves it.
\<close>

theorem computeBlockProposerSlashingReward_sum:
  assumes "0 < WHISTLEBLOWER_REWARD_QUOTIENT deps"
  shows "((\<forall>p \<in> set (BeaconBlockBody.proposerSlashings (body block)).
             BeaconBlockHeader.proposerIndex (message (signedHeader1 p)) < length (validators state)) \<longrightarrow>
          computeBlockProposerSlashingReward deps block state =
            Inr (\<Sum>p \<in># mset (BeaconBlockBody.proposerSlashings (body block)).
                   \<lfloor>(of_nat (effectiveBalance (validators state
                        ! BeaconBlockHeader.proposerIndex (message (signedHeader1 p)))) :: rat)
                     / of_nat (WHISTLEBLOWER_REWARD_QUOTIENT deps)\<rfloor>))
         \<and> (\<forall>r state'.
              computeBlockRewards deps block state = (Inr r, state')
              \<and> (\<forall>p \<in> set (BeaconBlockBody.proposerSlashings (body block)).
                    BeaconBlockHeader.proposerIndex (message (signedHeader1 p))
                      < length (validators state')) \<longrightarrow>
              BlockRewards.proposerSlashings r =
                (\<Sum>p \<in># mset (BeaconBlockBody.proposerSlashings (body block)).
                   \<lfloor>(of_nat (effectiveBalance (validators state'
                        ! BeaconBlockHeader.proposerIndex (message (signedHeader1 p)))) :: rat)
                     / of_nat (WHISTLEBLOWER_REWARD_QUOTIENT deps)\<rfloor>))"
proof -
  have calc: "computeBlockProposerSlashingReward deps block s =
      Inr (\<Sum>p \<in># mset (BeaconBlockBody.proposerSlashings (body block)).
             \<lfloor>(of_nat (effectiveBalance (validators s
                  ! BeaconBlockHeader.proposerIndex (message (signedHeader1 p)))) :: rat)
               / of_nat (WHISTLEBLOWER_REWARD_QUOTIENT deps)\<rfloor>)"
    if "\<forall>p \<in> set (BeaconBlockBody.proposerSlashings (body block)).
          BeaconBlockHeader.proposerIndex (message (signedHeader1 p)) < length (validators s)"
    for s
  proof -
    from that have "\<forall>p \<in> set (BeaconBlockBody.proposerSlashings (body block)).
        offender p < length (validators s)"
      by (simp add: offender_def)
    from proposerSlashingLoop_Inr [OF this, of deps 0] show ?thesis
      by (simp add: computeBlockProposerSlashingReward_def slashingShare_def offender_def
          flip: sum_mset_sum_list)
  qed
  show ?thesis
  proof (intro conjI allI impI)
    assume "\<forall>p \<in> set (BeaconBlockBody.proposerSlashings (body block)).
      BeaconBlockHeader.proposerIndex (message (signedHeader1 p)) < length (validators state)"
    then show "computeBlockProposerSlashingReward deps block state =
        Inr (\<Sum>p \<in># mset (BeaconBlockBody.proposerSlashings (body block)).
               \<lfloor>(of_nat (effectiveBalance (validators state
                    ! BeaconBlockHeader.proposerIndex (message (signedHeader1 p)))) :: rat)
                 / of_nat (WHISTLEBLOWER_REWARD_QUOTIENT deps)\<rfloor>)"
      by (rule calc)
  next
    fix r state'
    assume run: "computeBlockRewards deps block state = (Inr r, state')
      \<and> (\<forall>p \<in> set (BeaconBlockBody.proposerSlashings (body block)).
            BeaconBlockHeader.proposerIndex (message (signedHeader1 p)) < length (validators state'))"
    then have "computeBlockRewards deps block state = (Inr r, state')"
      by simp
    then have "computeBlockProposerSlashingReward deps block state'
        = Inr (BlockRewards.proposerSlashings r)"
      by (rule computeBlockRewards_InrD(5))
    with calc [of state'] run
    show "BlockRewards.proposerSlashings r =
        (\<Sum>p \<in># mset (BeaconBlockBody.proposerSlashings (body block)).
           \<lfloor>(of_nat (effectiveBalance (validators state'
                ! BeaconBlockHeader.proposerIndex (message (signedHeader1 p)))) :: rat)
             / of_nat (WHISTLEBLOWER_REWARD_QUOTIENT deps)\<rfloor>)"
      by simp
  qed
qed

text \<open>
  On the example chain the block slashes validator 0 twice and validator 2 once:
  \<open>2 * \<lfloor>32000000000 / 512\<rfloor> + \<lfloor>1000 / 512\<rfloor>\<close>.
\<close>

theorem computeBlockProposerSlashingReward_sum_witness:
  "0 < WHISTLEBLOWER_REWARD_QUOTIENT exampleCollaborators
   \<and> length (validators exampleState) = 3
   \<and> map (\<lambda>p. BeaconBlockHeader.proposerIndex (message (signedHeader1 p)))
         (BeaconBlockBody.proposerSlashings (body exampleBlock)) = [0, 2, 0]
   \<and> computeBlockProposerSlashingReward exampleCollaborators exampleBlock exampleState
       = Inr (62500000 + 1 + 62500000)
   \<and> computeBlockRewards exampleCollaborators exampleBlock exampleState =
       (Inr \<lparr>BlockRewards.proposerIndex = 1, total = 185546895, BlockRewards.attestations = 12,
             BlockRewards.syncAggregate = 6, BlockRewards.proposerSlashings = 125000001,
             BlockRewards.attesterSlashings = 60546876\<rparr>,
        exampleState\<lparr>proposerRewards :=
          \<lparr>RewardCache.attestations = 12, RewardCache.syncAggregate = 0, slashing = 0\<rparr>\<rparr>)
   \<and> (125000001 :: int) =
       (\<Sum>p \<in># mset (BeaconBlockBody.proposerSlashings (body exampleBlock)).
          \<lfloor>(of_nat (effectiveBalance (validators exampleState
               ! BeaconBlockHeader.proposerIndex (message (signedHeader1 p)))) :: rat) / 512\<rfloor>)"
proof -
  let ?state' = "exampleState\<lparr>proposerRewards :=
        \<lparr>RewardCache.attestations = 12, RewardCache.syncAggregate = 0, slashing = 0\<rparr>\<rparr>"
  have q: "0 < WHISTLEBLOWER_REWARD_QUOTIENT exampleCollaborators"
    and q512: "WHISTLEBLOWER_REWARD_QUOTIENT exampleCollaborators = 512"
    by (simp_all add: example_defs)
  have range: "\<forall>p \<in> set (BeaconBlockBody.proposerSlashings (body exampleBlock)).
      BeaconBlockHeader.proposerIndex (message (signedHeader1 p)) < length (validators exampleState)"
    by (simp add: example_defs)
  then have range': "\<forall>p \<in> set (BeaconBlockBody.proposerSlashings (body exampleBlock)).
      BeaconBlockHeader.proposerIndex (message (signedHeader1 p)) < length (validators ?state')"
    by simp
  have named: "map (\<lambda>p. BeaconBlockHeader.proposerIndex (message (signedHeader1 p)))
      (BeaconBlockBody.proposerSlashings (body exampleBlock)) = [0, 2, 0]"
    by (simp add: example_defs)
  note inst = computeBlockProposerSlashingReward_sum [OF q, of exampleBlock exampleState]
  have calc: "computeBlockProposerSlashingReward exampleCollaborators exampleBlock exampleState
      = Inr (62500000 + 1 + 62500000)"
    using inst range by (simp add: example_defs floor_rat_numeral)
  from inst [THEN conjunct2, rule_format, OF conjI, OF example_run range']
  have field: "(125000001 :: int) =
      (\<Sum>p \<in># mset (BeaconBlockBody.proposerSlashings (body exampleBlock)).
         \<lfloor>(of_nat (effectiveBalance (validators ?state'
              ! BeaconBlockHeader.proposerIndex (message (signedHeader1 p)))) :: rat)
           / of_nat (WHISTLEBLOWER_REWARD_QUOTIENT exampleCollaborators)\<rfloor>)"
    by simp
  have len: "length (validators exampleState) = 3"
    by (simp add: example_defs)
  from field q512 have field': "(125000001 :: int) =
      (\<Sum>p \<in># mset (BeaconBlockBody.proposerSlashings (body exampleBlock)).
         \<lfloor>(of_nat (effectiveBalance (validators exampleState
              ! BeaconBlockHeader.proposerIndex (message (signedHeader1 p)))) :: rat) / 512\<rfloor>)"
    by simp
  from q len named calc example_run field' show ?thesis by blast
qed

text \<open>
  Claim C6. The attester-slashing reward is the sum, over the attester slashings of the
  block body and over the indices the slashable-index utility returns for each of them, of
  the floor of \<open>Bi / WHISTLEBLOWER_REWARD_QUOTIENT\<close>, where \<open>Bi\<close> is the effective balance
  the state holds for that index. The calculator returns this sum whenever the state has
  all these validators, and then the attesterSlashings field of a returned breakdown is
  this sum on the state object as the call leaves it.
\<close>

theorem computeBlockAttesterSlashingReward_sum:
  assumes "0 < WHISTLEBLOWER_REWARD_QUOTIENT deps"
  shows "((\<forall>s \<in> set (BeaconBlockBody.attesterSlashings (body block)).
             \<forall>i \<in> set (getAttesterSlashableIndices deps s). i < length (validators state)) \<longrightarrow>
          computeBlockAttesterSlashingReward deps block state =
            Inr (\<Sum>s\<leftarrow>BeaconBlockBody.attesterSlashings (body block).
                   \<Sum>i\<leftarrow>getAttesterSlashableIndices deps s.
                     \<lfloor>(of_nat (effectiveBalance (validators state ! i)) :: rat)
                       / of_nat (WHISTLEBLOWER_REWARD_QUOTIENT deps)\<rfloor>))
         \<and> (\<forall>r state'.
              computeBlockRewards deps block state = (Inr r, state')
              \<and> (\<forall>s \<in> set (BeaconBlockBody.attesterSlashings (body block)).
                    \<forall>i \<in> set (getAttesterSlashableIndices deps s). i < length (validators state')) \<longrightarrow>
              BlockRewards.attesterSlashings r =
                (\<Sum>s\<leftarrow>BeaconBlockBody.attesterSlashings (body block).
                   \<Sum>i\<leftarrow>getAttesterSlashableIndices deps s.
                     \<lfloor>(of_nat (effectiveBalance (validators state' ! i)) :: rat)
                       / of_nat (WHISTLEBLOWER_REWARD_QUOTIENT deps)\<rfloor>))"
proof -
  have calc: "computeBlockAttesterSlashingReward deps block s =
      Inr (\<Sum>sl\<leftarrow>BeaconBlockBody.attesterSlashings (body block).
             \<Sum>i\<leftarrow>getAttesterSlashableIndices deps sl.
               \<lfloor>(of_nat (effectiveBalance (validators s ! i)) :: rat)
                 / of_nat (WHISTLEBLOWER_REWARD_QUOTIENT deps)\<rfloor>)"
    if "\<forall>sl \<in> set (BeaconBlockBody.attesterSlashings (body block)).
          \<forall>i \<in> set (getAttesterSlashableIndices deps sl). i < length (validators s)"
    for s
    using attesterSlashingLoop_Inr [OF that, of 0]
    by (simp add: computeBlockAttesterSlashingReward_def slashingShare_def)
  show ?thesis
  proof (intro conjI allI impI)
    assume "\<forall>s \<in> set (BeaconBlockBody.attesterSlashings (body block)).
      \<forall>i \<in> set (getAttesterSlashableIndices deps s). i < length (validators state)"
    then show "computeBlockAttesterSlashingReward deps block state =
        Inr (\<Sum>s\<leftarrow>BeaconBlockBody.attesterSlashings (body block).
               \<Sum>i\<leftarrow>getAttesterSlashableIndices deps s.
                 \<lfloor>(of_nat (effectiveBalance (validators state ! i)) :: rat)
                   / of_nat (WHISTLEBLOWER_REWARD_QUOTIENT deps)\<rfloor>)"
      by (rule calc)
  next
    fix r state'
    assume run: "computeBlockRewards deps block state = (Inr r, state')
      \<and> (\<forall>s \<in> set (BeaconBlockBody.attesterSlashings (body block)).
            \<forall>i \<in> set (getAttesterSlashableIndices deps s). i < length (validators state'))"
    then have "computeBlockRewards deps block state = (Inr r, state')"
      by simp
    then have "computeBlockAttesterSlashingReward deps block state'
        = Inr (BlockRewards.attesterSlashings r)"
      by (rule computeBlockRewards_InrD(6))
    with calc [of state'] run
    show "BlockRewards.attesterSlashings r =
        (\<Sum>s\<leftarrow>BeaconBlockBody.attesterSlashings (body block).
           \<Sum>i\<leftarrow>getAttesterSlashableIndices deps s.
             \<lfloor>(of_nat (effectiveBalance (validators state' ! i)) :: rat)
               / of_nat (WHISTLEBLOWER_REWARD_QUOTIENT deps)\<rfloor>)"
      by simp
  qed
qed

text \<open>
  On the example chain the one attester slashing has the slashable indices 1 and 2:
  \<open>\<lfloor>31000000000 / 512\<rfloor> + \<lfloor>1000 / 512\<rfloor>\<close>.
\<close>

theorem computeBlockAttesterSlashingReward_sum_witness:
  "0 < WHISTLEBLOWER_REWARD_QUOTIENT exampleCollaborators
   \<and> length (validators exampleState) = 3
   \<and> map (getAttesterSlashableIndices exampleCollaborators)
         (BeaconBlockBody.attesterSlashings (body exampleBlock)) = [[1, 2]]
   \<and> computeBlockAttesterSlashingReward exampleCollaborators exampleBlock exampleState
       = Inr (60546875 + 1)
   \<and> computeBlockRewards exampleCollaborators exampleBlock exampleState =
       (Inr \<lparr>BlockRewards.proposerIndex = 1, total = 185546895, BlockRewards.attestations = 12,
             BlockRewards.syncAggregate = 6, BlockRewards.proposerSlashings = 125000001,
             BlockRewards.attesterSlashings = 60546876\<rparr>,
        exampleState\<lparr>proposerRewards :=
          \<lparr>RewardCache.attestations = 12, RewardCache.syncAggregate = 0, slashing = 0\<rparr>\<rparr>)
   \<and> (60546876 :: int) =
       (\<Sum>s\<leftarrow>BeaconBlockBody.attesterSlashings (body exampleBlock).
          \<Sum>i\<leftarrow>getAttesterSlashableIndices exampleCollaborators s.
            \<lfloor>(of_nat (effectiveBalance (validators exampleState ! i)) :: rat) / 512\<rfloor>)"
proof -
  let ?state' = "exampleState\<lparr>proposerRewards :=
        \<lparr>RewardCache.attestations = 12, RewardCache.syncAggregate = 0, slashing = 0\<rparr>\<rparr>"
  have q: "0 < WHISTLEBLOWER_REWARD_QUOTIENT exampleCollaborators"
    and q512: "WHISTLEBLOWER_REWARD_QUOTIENT exampleCollaborators = 512"
    by (simp_all add: example_defs)
  have range: "\<forall>s \<in> set (BeaconBlockBody.attesterSlashings (body exampleBlock)).
      \<forall>i \<in> set (getAttesterSlashableIndices exampleCollaborators s).
        i < length (validators exampleState)"
    by (simp add: example_defs)
  then have range': "\<forall>s \<in> set (BeaconBlockBody.attesterSlashings (body exampleBlock)).
      \<forall>i \<in> set (getAttesterSlashableIndices exampleCollaborators s).
        i < length (validators ?state')"
    by simp
  have ixs: "map (getAttesterSlashableIndices exampleCollaborators)
      (BeaconBlockBody.attesterSlashings (body exampleBlock)) = [[1, 2]]"
    by (simp add: example_defs)
  note inst = computeBlockAttesterSlashingReward_sum [OF q, of exampleBlock exampleState]
  have calc: "computeBlockAttesterSlashingReward exampleCollaborators exampleBlock exampleState
      = Inr (60546875 + 1)"
    using inst range by (simp add: example_defs floor_rat_numeral)
  from inst [THEN conjunct2, rule_format, OF conjI, OF example_run range']
  have field: "(60546876 :: int) =
      (\<Sum>s\<leftarrow>BeaconBlockBody.attesterSlashings (body exampleBlock).
         \<Sum>i\<leftarrow>getAttesterSlashableIndices exampleCollaborators s.
           \<lfloor>(of_nat (effectiveBalance (validators ?state' ! i)) :: rat)
             / of_nat (WHISTLEBLOWER_REWARD_QUOTIENT exampleCollaborators)\<rfloor>)"
    by simp
  have len: "length (validators exampleState) = 3"
    by (simp add: example_defs)
  from field q512 have field': "(60546876 :: int) =
      (\<Sum>s\<leftarrow>BeaconBlockBody.attesterSlashings (body exampleBlock).
         \<Sum>i\<leftarrow>getAttesterSlashableIndices exampleCollaborators s.
           \<lfloor>(of_nat (effectiveBalance (validators exampleState ! i)) :: rat) / 512\<rfloor>)"
    by simp
  from q len ixs calc example_run field' show ?thesis by blast
qed

subsection \<open>With the engine of the specification\<close>

text \<open>What the engine of the specification does in the reward-only mode.\<close>

lemma processAttestationsAltairSpec_rewardOnly:
  "processAttestationsAltairSpec attestationReward slashingEffects fork state atts False =
     (Inr (), state\<lparr>proposerRewards := (proposerRewards state)
        \<lparr>RewardCache.attestations :=
           RewardCache.attestations (proposerRewards state)
             + (\<Sum>a\<leftarrow>atts. int (attestationReward fork state a))\<rparr>\<rparr>)"
  by (simp add: processAttestationsAltairSpec_def)

lemma specCollaborators_simps:
  "WHISTLEBLOWER_REWARD_QUOTIENT (specCollaborators q ix bl rw eff) = q"
  "getAttesterSlashableIndices (specCollaborators q ix bl rw eff) = ix"
  "processAttestationsAltair (specCollaborators q ix bl rw eff) = processAttestationsAltairSpec rw eff"
  "getBeyondLength (specCollaborators q ix bl rw eff) = bl"
  by (simp_all add: specCollaborators_def)

text \<open>The slashing calculators read the validators of the state only.\<close>

lemma proposerSlashingLoop_cong:
  "validators s = validators s' \<Longrightarrow>
   proposerSlashingLoop deps s ps acc = proposerSlashingLoop deps s' ps acc"
  by (induction ps arbitrary: acc) (simp_all add: Let_def split: sum.splits)

lemma attesterIndexLoop_cong:
  "validators s = validators s' \<Longrightarrow>
   attesterIndexLoop deps s ixs acc = attesterIndexLoop deps s' ixs acc"
  by (induction ixs arbitrary: acc) (simp_all add: Let_def split: sum.splits)

lemma attesterSlashingLoop_cong:
  "validators s = validators s' \<Longrightarrow> attesterSlashingLoop deps s ss acc = attesterSlashingLoop deps s' ss acc"
  by (induction ss arbitrary: acc) (simp_all add: attesterIndexLoop_cong [of s s'] split: sum.splits)

text \<open>
  Claim C7. With the engine of the specification and a state whose accumulator is zero, a
  block of a fork after phase0 with no attestations, a sync aggregate without a set bit,
  no proposer slashings and no attester slashings gets the breakdown with total 0 and all
  four sub-rewards 0.
\<close>

theorem computeBlockRewards_empty_block:
  assumes "getForkName (config state) (BeaconBlock.slot block) \<noteq> phase0"
    and "BeaconBlockBody.attestations (body block) = []"
    and "BeaconBlockBody.syncAggregate (body block) = Some aggregate"
    and "True \<notin> set (syncCommitteeBits aggregate)"
    and "BeaconBlockBody.proposerSlashings (body block) = []"
    and "BeaconBlockBody.attesterSlashings (body block) = []"
    and "RewardCache.attestations (proposerRewards state) = 0"
  shows "fst (computeBlockRewards (specCollaborators q ix bl rw eff) block state) =
           Inr \<lparr>BlockRewards.proposerIndex = BeaconBlock.proposerIndex block, total = 0,
                BlockRewards.attestations = 0, BlockRewards.syncAggregate = 0,
                BlockRewards.proposerSlashings = 0, BlockRewards.attesterSlashings = 0\<rparr>"
proof -
  have "filter (\<lambda>b. b) (syncCommitteeBits aggregate) = []"
    using assms(4) by (auto simp: filter_empty_conv)
  then have bits: "length (getTrueBitIndexes (syncCommitteeBits aggregate)) = 0"
    by (simp add: length_getTrueBitIndexes setBits_def)
  show ?thesis
    using assms(1,2,3,5,6,7) bits
    by (simp add: computeBlockRewards_def computeBlockAttestationRewardAltair_def
        computeSyncAggregateReward_def computeBlockProposerSlashingReward_def
        computeBlockAttesterSlashingReward_def specCollaborators_simps
        processAttestationsAltairSpec_rewardOnly Let_def)
qed

theorem computeBlockRewards_empty_block_witness:
  "getForkName (config exampleState) (BeaconBlock.slot exampleEmptyBlock) = altair
   \<and> body exampleEmptyBlock =
       \<lparr>BeaconBlockBody.attestations = [],
        BeaconBlockBody.syncAggregate = Some \<lparr>syncCommitteeBits = [False, False, False]\<rparr>,
        BeaconBlockBody.proposerSlashings = [], BeaconBlockBody.attesterSlashings = []\<rparr>
   \<and> RewardCache.attestations (proposerRewards exampleState) = 0
   \<and> fst (computeBlockRewards exampleCollaborators exampleEmptyBlock exampleState) =
       Inr \<lparr>BlockRewards.proposerIndex = 1, total = 0,
            BlockRewards.attestations = 0, BlockRewards.syncAggregate = 0,
            BlockRewards.proposerSlashings = 0, BlockRewards.attesterSlashings = 0\<rparr>"
proof -
  have fork: "getForkName (config exampleState) (BeaconBlock.slot exampleEmptyBlock) = altair"
    by (simp add: example_defs)
  then have era: "getForkName (config exampleState) (BeaconBlock.slot exampleEmptyBlock) \<noteq> phase0"
    by simp
  have b: "body exampleEmptyBlock =
       \<lparr>BeaconBlockBody.attestations = [],
        BeaconBlockBody.syncAggregate = Some \<lparr>syncCommitteeBits = [False, False, False]\<rparr>,
        BeaconBlockBody.proposerSlashings = [], BeaconBlockBody.attesterSlashings = []\<rparr>"
    by (simp add: example_defs)
  have acc: "RewardCache.attestations (proposerRewards exampleState) = 0"
    by (simp add: example_defs)
  have "fst (computeBlockRewards
          (specCollaborators 512 exampleSlashableIndices (\<lambda>i. Inl (ValidatorIndexOutOfRange i))
             (\<lambda>fork state a. a) (\<lambda>s. s))
          exampleEmptyBlock exampleState) =
       Inr \<lparr>BlockRewards.proposerIndex = BeaconBlock.proposerIndex exampleEmptyBlock, total = 0,
            BlockRewards.attestations = 0, BlockRewards.syncAggregate = 0,
            BlockRewards.proposerSlashings = 0, BlockRewards.attesterSlashings = 0\<rparr>"
    by (rule computeBlockRewards_empty_block
          [OF era, where aggregate = "\<lparr>syncCommitteeBits = [False, False, False]\<rparr>"])
       (simp_all add: b acc)
  moreover have "BeaconBlock.proposerIndex exampleEmptyBlock = 1"
    by (simp add: example_defs)
  ultimately show ?thesis
    using fork b acc by (simp add: exampleCollaborators_def)
qed

text \<open>
  Claim C8. With the engine of the specification the call is not idempotent in the state:
  when a first call has returned and the call is repeated on the state object as the first
  call left it, the second call returns too, and its attestations sub-reward is the first
  call's attestations sub-reward (the value left in the accumulator) plus what the engine
  adds for the block's attestations in the second run. The other sub-rewards are the same.
  When the reward of an attestation is the same in both runs and the accumulator was zero
  before the first call, the second call reports twice the first call's value.
\<close>

theorem computeBlockRewards_twice:
  assumes "computeBlockRewards (specCollaborators q ix bl rw eff) block state = (Inr r1, state1)"
  shows "\<exists>r2 state2.
           computeBlockRewards (specCollaborators q ix bl rw eff) block state1 = (Inr r2, state2)
           \<and> RewardCache.attestations (proposerRewards state1) = BlockRewards.attestations r1
           \<and> BlockRewards.attestations r2 =
               BlockRewards.attestations r1
                 + (\<Sum>a\<leftarrow>BeaconBlockBody.attestations (body block).
                      int (rw (getForkSeq (config state) (BeaconBlock.slot block)) state1 a))
           \<and> BlockRewards.attestations r1 \<le> BlockRewards.attestations r2
           \<and> BlockRewards.syncAggregate r2 = BlockRewards.syncAggregate r1
           \<and> BlockRewards.proposerSlashings r2 = BlockRewards.proposerSlashings r1
           \<and> BlockRewards.attesterSlashings r2 = BlockRewards.attesterSlashings r1
           \<and> ((\<forall>a \<in> set (BeaconBlockBody.attestations (body block)).
                  rw (getForkSeq (config state) (BeaconBlock.slot block)) state1 a
                    = rw (getForkSeq (config state) (BeaconBlock.slot block)) state a)
                \<and> RewardCache.attestations (proposerRewards state) = 0
               \<longrightarrow> BlockRewards.attestations r2 = 2 * BlockRewards.attestations r1)"
proof -
  let ?deps = "specCollaborators q ix bl rw eff"
  let ?fork = "getForkSeq (config state) (BeaconBlock.slot block)"
  let ?atts = "BeaconBlockBody.attestations (body block)"
  let ?add = "\<lambda>s. \<Sum>a\<leftarrow>?atts. int (rw ?fork s a)"
  note run = computeBlockRewards_InrD [OF assms]
  have state1: "state1 = state\<lparr>proposerRewards := (proposerRewards state)
      \<lparr>RewardCache.attestations := RewardCache.attestations (proposerRewards state) + ?add state\<rparr>\<rparr>"
    using run(2) by (simp add: specCollaborators_simps processAttestationsAltairSpec_rewardOnly)
  have cfg: "config state1 = config state" and ctx: "epochCtx state1 = epochCtx state"
    and vals: "validators state1 = validators state"
    by (simp_all add: state1)
  define state2 where "state2 = state1\<lparr>proposerRewards := (proposerRewards state1)
      \<lparr>RewardCache.attestations := RewardCache.attestations (proposerRewards state1) + ?add state1\<rparr>\<rparr>"
  have vals2: "validators state2 = validators state1" and ctx2: "epochCtx state2 = epochCtx state1"
    by (simp_all add: state2_def)
  have sync: "computeSyncAggregateReward block state2 = BlockRewards.syncAggregate r1"
    unfolding run(4) computeSyncAggregateReward_def ctx2 ..
  have prs: "computeBlockProposerSlashingReward ?deps block state2
      = Inr (BlockRewards.proposerSlashings r1)"
    using run(5)
    by (simp add: computeBlockProposerSlashingReward_def proposerSlashingLoop_cong [OF vals2])
  have ats: "computeBlockAttesterSlashingReward ?deps block state2
      = Inr (BlockRewards.attesterSlashings r1)"
    using run(6)
    by (simp add: computeBlockAttesterSlashingReward_def attesterSlashingLoop_cong [OF vals2])
  define r2 where "r2 =
    \<lparr>BlockRewards.proposerIndex = BeaconBlock.proposerIndex block,
     total = RewardCache.attestations (proposerRewards state2) + BlockRewards.syncAggregate r1
       + BlockRewards.proposerSlashings r1 + BlockRewards.attesterSlashings r1,
     BlockRewards.attestations = RewardCache.attestations (proposerRewards state2),
     BlockRewards.syncAggregate = BlockRewards.syncAggregate r1,
     BlockRewards.proposerSlashings = BlockRewards.proposerSlashings r1,
     BlockRewards.attesterSlashings = BlockRewards.attesterSlashings r1\<rparr>"
  have engine2: "processAttestationsAltair ?deps (getForkSeq (config state1) (BeaconBlock.slot block))
      state1 ?atts False = (Inr (), state2)"
    by (simp add: specCollaborators_simps processAttestationsAltairSpec_rewardOnly state2_def cfg)
  have second: "computeBlockRewards ?deps block state1 = (Inr r2, state2)"
    using run(1) engine2 sync prs ats
    by (simp add: computeBlockRewards_def computeBlockAttestationRewardAltair_def cfg Let_def r2_def)
  have acc1: "RewardCache.attestations (proposerRewards state1) = BlockRewards.attestations r1"
    using run(3) by simp
  have att2: "BlockRewards.attestations r2 = BlockRewards.attestations r1 + ?add state1"
    by (simp add: r2_def state2_def acc1)
  have mono: "BlockRewards.attestations r1 \<le> BlockRewards.attestations r2"
    unfolding att2 by (simp add: sum_list_nonneg_int)
  have double: "BlockRewards.attestations r2 = 2 * BlockRewards.attestations r1"
    if same: "\<forall>a \<in> set ?atts. rw ?fork state1 a = rw ?fork state a"
      and zero: "RewardCache.attestations (proposerRewards state) = 0"
  proof -
    have "?add state1 = ?add state"
      using same by (intro arg_cong [where f = sum_list] map_cong) simp_all
    moreover have "BlockRewards.attestations r1 = ?add state"
      using acc1 zero by (simp add: state1)
    ultimately show ?thesis by (simp add: att2)
  qed
  show ?thesis
    using second acc1 att2 mono double
    by (intro exI [of _ r2] exI [of _ state2]) (simp add: r2_def)
qed

text \<open>
  On the example chain the attestations of the block earn 12: the first call reports 12,
  the second call on the same state object reports 24.
\<close>

theorem computeBlockRewards_twice_witness:
  "RewardCache.attestations (proposerRewards exampleState) = 0
   \<and> fst (computeBlockRewards exampleCollaborators exampleBlock exampleState) =
       Inr \<lparr>BlockRewards.proposerIndex = 1, total = 185546895, BlockRewards.attestations = 12,
            BlockRewards.syncAggregate = 6, BlockRewards.proposerSlashings = 125000001,
            BlockRewards.attesterSlashings = 60546876\<rparr>
   \<and> fst (computeBlockRewards exampleCollaborators exampleBlock
            (snd (computeBlockRewards exampleCollaborators exampleBlock exampleState))) =
       Inr \<lparr>BlockRewards.proposerIndex = 1, total = 185546907, BlockRewards.attestations = 2 * 12,
            BlockRewards.syncAggregate = 6, BlockRewards.proposerSlashings = 125000001,
            BlockRewards.attesterSlashings = 60546876\<rparr>"
proof -
  let ?state1 = "exampleState\<lparr>proposerRewards :=
        \<lparr>RewardCache.attestations = 12, RewardCache.syncAggregate = 0, slashing = 0\<rparr>\<rparr>"
  have zero: "RewardCache.attestations (proposerRewards exampleState) = 0"
    by (simp add: example_defs)
  from computeBlockRewards_twice [OF example_run [unfolded exampleCollaborators_def]] zero
  obtain r2 state2 where
    second: "computeBlockRewards exampleCollaborators exampleBlock ?state1 = (Inr r2, state2)"
    and double: "BlockRewards.attestations r2 = 2 * 12"
    and rest: "BlockRewards.syncAggregate r2 = 6" "BlockRewards.proposerSlashings r2 = 125000001"
      "BlockRewards.attesterSlashings r2 = 60546876"
    by (auto simp: exampleCollaborators_def)
  note run2 = computeBlockRewards_InrD [OF second]
  from double rest run2(7,8) have "r2 =
       \<lparr>BlockRewards.proposerIndex = 1, total = 185546907, BlockRewards.attestations = 2 * 12,
        BlockRewards.syncAggregate = 6, BlockRewards.proposerSlashings = 125000001,
        BlockRewards.attesterSlashings = 60546876\<rparr>"
    by (cases r2) (simp add: example_defs)
  with second example_run zero show ?thesis by simp
qed

text \<open>The functions on the store compute what the functions on the objects compute.\<close>

lemma computeBlockRewardsInStore_inStore:
  "computeBlockRewardsInStore deps (inStore (processAttestationsAltair deps)) blockRef stateRef store =
     (case computeBlockRewards deps (blockObjects store blockRef) (stateObjects store stateRef) of
        (outcome, state') \<Rightarrow>
          (outcome, store\<lparr>stateObjects := (stateObjects store)(stateRef := state')\<rparr>))"
  by (simp add: computeBlockRewardsInStore_def computeBlockRewards_def
      computeBlockAttestationRewardPhase0InStore_def computeBlockAttestationRewardPhase0_def
      computeBlockAttestationRewardAltairInStore_def computeBlockAttestationRewardAltair_def
      inStore_def Let_def split: prod.splits sum.splits)

lemma computeBlockRewardsInStore_snd:
  "snd (computeBlockRewardsInStore deps engine blockRef stateRef store) =
     (if getForkName (config (stateObjects store stateRef))
           (BeaconBlock.slot (blockObjects store blockRef)) = phase0
      then store
      else snd (engine (getForkSeq (config (stateObjects store stateRef))
                          (BeaconBlock.slot (blockObjects store blockRef)))
                  stateRef blockRef False store))"
  by (auto simp: computeBlockRewardsInStore_def computeBlockAttestationRewardPhase0InStore_def
        computeBlockAttestationRewardAltairInStore_def Let_def
      split: sum.splits prod.splits)

text \<open>
  Claim C9. A call on a store, with the engine of the specification, leaves every block
  object as it was, the block of the call among them, and every state object other than
  the one of the call as it was, the canonical chain state among them; the state object
  of the call differs from what it was in the accumulator
  \<^verbatim>\<open>proposerRewards.attestations\<close> at most. For every engine, the store a call leaves is
  the given one (on a phase0 slot) or the one the engine leaves: the functions of the
  module write to no object themselves.
\<close>

theorem computeBlockRewardsInStore_frame:
  "(let store' = snd (computeBlockRewardsInStore deps
                       (processAttestationsAltairSpecInStore rw eff) blockRef stateRef store)
    in blockObjects store' = blockObjects store
       \<and> (\<forall>ref. ref \<noteq> stateRef \<longrightarrow> stateObjects store' ref = stateObjects store ref)
       \<and> (\<exists>x. stateObjects store' stateRef =
                (stateObjects store stateRef)
                  \<lparr>proposerRewards := (proposerRewards (stateObjects store stateRef))
                     \<lparr>RewardCache.attestations := x\<rparr>\<rparr>))
   \<and> snd (computeBlockRewardsInStore deps engine blockRef stateRef store) =
       (if getForkName (config (stateObjects store stateRef))
             (BeaconBlock.slot (blockObjects store blockRef)) = phase0
        then store
        else snd (engine (getForkSeq (config (stateObjects store stateRef))
                            (BeaconBlock.slot (blockObjects store blockRef)))
                    stateRef blockRef False store))"
proof -
  let ?state = "stateObjects store stateRef"
  let ?block = "blockObjects store blockRef"
  let ?store' = "snd (computeBlockRewardsInStore deps
      (processAttestationsAltairSpecInStore rw eff) blockRef stateRef store)"
  let ?add = "\<Sum>a\<leftarrow>BeaconBlockBody.attestations (body ?block).
      int (rw (getForkSeq (config ?state) (BeaconBlock.slot ?block)) ?state a)"
  have "\<exists>x. ?store' = store\<lparr>stateObjects := (stateObjects store)
      (stateRef := ?state\<lparr>proposerRewards := (proposerRewards ?state)
         \<lparr>RewardCache.attestations := x\<rparr>\<rparr>)\<rparr>"
  proof (cases "getForkName (config ?state) (BeaconBlock.slot ?block) = phase0")
    case True
    have "store = store\<lparr>stateObjects := (stateObjects store)
        (stateRef := ?state\<lparr>proposerRewards := (proposerRewards ?state)
           \<lparr>RewardCache.attestations := RewardCache.attestations (proposerRewards ?state)\<rparr>\<rparr>)\<rparr>"
      by simp
    with True have "?store' = store\<lparr>stateObjects := (stateObjects store)
        (stateRef := ?state\<lparr>proposerRewards := (proposerRewards ?state)
           \<lparr>RewardCache.attestations := RewardCache.attestations (proposerRewards ?state)\<rparr>\<rparr>)\<rparr>"
      by (simp add: computeBlockRewardsInStore_snd)
    then show ?thesis ..
  next
    case False
    then have "?store' = store\<lparr>stateObjects := (stateObjects store)
        (stateRef := ?state\<lparr>proposerRewards := (proposerRewards ?state)
           \<lparr>RewardCache.attestations :=
              RewardCache.attestations (proposerRewards ?state) + ?add\<rparr>\<rparr>)\<rparr>"
      by (simp add: computeBlockRewardsInStore_snd processAttestationsAltairSpecInStore_def
          inStore_def processAttestationsAltairSpec_rewardOnly)
    then show ?thesis ..
  qed
  then obtain x where store': "?store' = store\<lparr>stateObjects := (stateObjects store)
      (stateRef := ?state\<lparr>proposerRewards := (proposerRewards ?state)
         \<lparr>RewardCache.attestations := x\<rparr>\<rparr>)\<rparr>" ..
  have blocks: "blockObjects ?store' = blockObjects store"
    by (simp add: store')
  have others: "\<forall>ref. ref \<noteq> stateRef \<longrightarrow> stateObjects ?store' ref = stateObjects store ref"
    by (simp add: store')
  have "stateObjects ?store' stateRef =
      ?state\<lparr>proposerRewards := (proposerRewards ?state)\<lparr>RewardCache.attestations := x\<rparr>\<rparr>"
    by (simp add: store')
  then have this_one: "\<exists>x. stateObjects ?store' stateRef =
      ?state\<lparr>proposerRewards := (proposerRewards ?state)\<lparr>RewardCache.attestations := x\<rparr>\<rparr>" ..
  from blocks others this_one computeBlockRewardsInStore_snd [of deps engine blockRef stateRef store]
  show ?thesis by (simp add: Let_def)
qed

text \<open>
  On the example store a call with the block and the state at reference 0 leaves the
  block, the other block and the canonical chain state at reference 1 as they were, and
  writes 12 to the accumulator of the state of the call.
\<close>

theorem computeBlockRewardsInStore_frame_witness:
  "blockObjects (snd (computeBlockRewardsInStore exampleCollaborators
       (processAttestationsAltairSpecInStore (\<lambda>fork state a. a) (\<lambda>s. s)) 0 0 exampleStore))
     = blockObjects exampleStore
   \<and> (1 :: nat) \<noteq> 0
   \<and> stateObjects (snd (computeBlockRewardsInStore exampleCollaborators
       (processAttestationsAltairSpecInStore (\<lambda>fork state a. a) (\<lambda>s. s)) 0 0 exampleStore)) 1
     = stateObjects exampleStore 1
   \<and> stateObjects (snd (computeBlockRewardsInStore exampleCollaborators
       (processAttestationsAltairSpecInStore (\<lambda>fork state a. a) (\<lambda>s. s)) 0 0 exampleStore)) 0
     = exampleState\<lparr>proposerRewards := (proposerRewards exampleState)\<lparr>RewardCache.attestations := 12\<rparr>\<rparr>
   \<and> fst (computeBlockRewardsInStore exampleCollaborators
       (processAttestationsAltairSpecInStore (\<lambda>fork state a. a) (\<lambda>s. s)) 0 0 exampleStore)
     = Inr \<lparr>BlockRewards.proposerIndex = 1, total = 185546895, BlockRewards.attestations = 12,
            BlockRewards.syncAggregate = 6, BlockRewards.proposerSlashings = 125000001,
            BlockRewards.attesterSlashings = 60546876\<rparr>"
proof -
  let ?engine = "processAttestationsAltairSpecInStore (\<lambda>fork state (a :: nat). a) (\<lambda>s. s)"
  have engine: "?engine = inStore (processAttestationsAltair exampleCollaborators)"
    by (simp add: processAttestationsAltairSpecInStore_def exampleCollaborators_def
        specCollaborators_def)
  have objects: "blockObjects exampleStore 0 = exampleBlock" "stateObjects exampleStore 0 = exampleState"
    by (simp_all add: exampleStore_def)
  have run: "computeBlockRewardsInStore exampleCollaborators ?engine 0 0 exampleStore =
      (Inr \<lparr>BlockRewards.proposerIndex = 1, total = 185546895, BlockRewards.attestations = 12,
            BlockRewards.syncAggregate = 6, BlockRewards.proposerSlashings = 125000001,
            BlockRewards.attesterSlashings = 60546876\<rparr>,
       exampleStore\<lparr>stateObjects := (stateObjects exampleStore)
         (0 := exampleState\<lparr>proposerRewards :=
            \<lparr>RewardCache.attestations = 12, RewardCache.syncAggregate = 0, slashing = 0\<rparr>\<rparr>)\<rparr>)"
    unfolding engine computeBlockRewardsInStore_inStore objects
    by (simp add: example_run)
  have acc: "proposerRewards exampleState =
      \<lparr>RewardCache.attestations = 0, RewardCache.syncAggregate = 0, slashing = 0\<rparr>"
    by (simp add: exampleState_def)
  note inst = computeBlockRewardsInStore_frame
         [of exampleCollaborators "\<lambda>fork state a. a" "\<lambda>s. s" 0 0 exampleStore ?engine,
          unfolded Let_def, THEN conjunct1]
  have blocks: "blockObjects (snd (computeBlockRewardsInStore exampleCollaborators ?engine 0 0
      exampleStore)) = blockObjects exampleStore"
    by (rule inst [THEN conjunct1])
  have other: "(1 :: nat) \<noteq> 0"
    by simp
  have canonical: "stateObjects (snd (computeBlockRewardsInStore exampleCollaborators ?engine 0 0
      exampleStore)) 1 = stateObjects exampleStore 1"
    by (rule inst [THEN conjunct2, THEN conjunct1, rule_format, OF other])
  from run acc have "stateObjects (snd (computeBlockRewardsInStore exampleCollaborators ?engine 0 0
      exampleStore)) 0
      = exampleState\<lparr>proposerRewards := (proposerRewards exampleState)\<lparr>RewardCache.attestations := 12\<rparr>\<rparr>"
    and "fst (computeBlockRewardsInStore exampleCollaborators ?engine 0 0 exampleStore)
      = Inr \<lparr>BlockRewards.proposerIndex = 1, total = 185546895, BlockRewards.attestations = 12,
            BlockRewards.syncAggregate = 6, BlockRewards.proposerSlashings = 125000001,
            BlockRewards.attesterSlashings = 60546876\<rparr>"
    by simp_all
  with blocks other canonical show ?thesis by blast
qed

end
